theory Spec2Isabelle
  imports Main
begin

section \<open>Data model\<close>

text \<open>
  The entities \<open>User\<close>, \<open>Workspace\<close> and \<open>UserToken\<close> are declared in
  \<open>@src/models\<close>, which is not among the sources; their fields are the ones the
  controllers and the middleware read and write. A JavaScript object indexed by user id
  (\<open>workspace.permissions\<close>) is a partial map; a missing key reads as \<open>undefined\<close>,
  which is \<open>None\<close> here.
\<close>

text \<open>Modelled from the spec: the enumeration \<open>PermissionRoles\<close> of
  \<open>@src/models/Workspace\<close> (section 3 names the roles OWNER, ADMIN, MANAGER, VIEWER).\<close>

datatype PermissionRoles = OWNER | ADMIN | MANAGER | VIEWER

text \<open>Modelled from the spec: the type \<open>IPermissions\<close> of \<open>@src/models/Workspace\<close>, an
  association between roles and lists of capability strings (section 3, PermissionSet).\<close>

type_synonym IPermissions = "(PermissionRoles \<times> string list) list"

record User =
  uid :: string
  address :: string
  uprovider :: string
  avatar :: string

record Workspace =
  wid :: string
  name :: string
  wavatar :: string
  single :: bool
  owner :: User
  members :: "User list"
  permissions :: "string \<rightharpoonup> IPermissions"

datatype UnauthorizedErrorTitles = MISSING_CREDENTIALS | MISSING_PERMISSION

text \<open>
  Every \<open>throw\<close> of the source is a value of \<open>error\<close>. \<open>TypeError\<close> is the
  JavaScript runtime error of reading a property of \<open>undefined\<close>; it carries neither
  \<open>error\<close> nor \<open>statusCode\<close>, so a handler that answers \<open>error(e.error, e.statusCode)\<close>
  answers with both fields undefined. \<open>Thrown\<close> is an error raised by a collaborator
  passed in as a parameter.
\<close>

datatype error =
    Unauthorized UnauthorizedErrorTitles
  | NotFound
  | Internal
  | InvalidCredential
  | TypeError
  | Thrown string

section \<open>The authorization gate (middlewares/auth)\<close>

text \<open>The part of the request that \<open>authPermissionMiddleware\<close> reads: the fields
  \<open>user\<close> and \<open>workspace\<close> (here \<open>req_user\<close>, \<open>req_workspace\<close>) that
  \<open>authMiddleware\<close> attaches, either of which may be absent.\<close>

record IAuthRequest =
  req_user :: "User option"
  req_workspace :: "Workspace option"

text \<open>The middleware ends in \<open>next()\<close> or in \<open>next(e)\<close>.\<close>

datatype next_result = Next | NextError error

text \<open>
  \<open>validatePermissionGeneral\<close> lives in \<open>@src/utils/permissionValidate\<close>, which is not
  among the sources: it is the parameter \<open>validate\<close>, which answers \<open>Inr\<close> of a
  truth value or \<open>Inl\<close> of the error it throws. The optional argument
  \<open>permission?: PermissionRoles[]\<close> is an option.
\<close>

definition authPermissionMiddleware ::
  "(Workspace \<Rightarrow> string \<Rightarrow> PermissionRoles list \<Rightarrow> error + bool) \<Rightarrow>
   PermissionRoles list option \<Rightarrow> IAuthRequest \<Rightarrow> next_result" where
  "authPermissionMiddleware validate permission req =
     (case permission of
        None \<Rightarrow> Next
      | Some ps \<Rightarrow>
          if length ps = 0 then Next
          else
            (case (req_user req, req_workspace req) of
               (Some u, Some w) \<Rightarrow>
                 (case permissions w (uid u) of
                    None \<Rightarrow> NextError (Unauthorized MISSING_PERMISSION)
                  | Some _ \<Rightarrow>
                      (case validate w (uid u) ps of
                         Inl err \<Rightarrow> NextError err
                       | Inr ok \<Rightarrow>
                           if ok then Next
                           else NextError (Unauthorized MISSING_PERMISSION)))
             | _ \<Rightarrow> NextError (Unauthorized MISSING_CREDENTIALS)))"

section \<open>Stored state and the collaborators of the controllers\<close>

text \<open>
  A session as the controllers see it: \<open>token.workspace\<close>, \<open>response.token\<close>,
  \<open>response.user\<close>, and the fields \<open>AuthController.signIn\<close> hands to the service.
  Times are milliseconds since the epoch; \<open>None\<close> in \<open>expired_at\<close> is JavaScript's
  invalid date.
\<close>

record UserToken =
  token :: string
  user :: User
  workspace :: Workspace
  expired_at :: "int option"
  encoder :: "string option"
  provider :: string
  payload :: string

text \<open>The three tables the controllers reach through their services. A row is
  identified by its position in its table: an entity loaded from row \<open>i\<close> is saved back
  to row \<open>i\<close>.\<close>

record db =
  tokens :: "UserToken list"
  workspaces :: "Workspace list"
  users :: "User list"

text \<open>The first row that satisfies a query, with its position: what
  \<open>.list().then(response => response[0])\<close> and \<open>getOne()\<close> return; \<open>None\<close> is
  \<open>undefined\<close>.\<close>

fun find_first :: "('a \<Rightarrow> bool) \<Rightarrow> 'a list \<Rightarrow> (nat \<times> 'a) option" where
  "find_first P [] = None"
| "find_first P (x # xs) =
     (if P x then Some (0, x)
      else (case find_first P xs of None \<Rightarrow> None | Some (i, y) \<Rightarrow> Some (Suc i, y)))"

text \<open>Modelled from the spec: \<open>IAuthService.findToken\<close> with \<open>{ userId }\<close>, the
  \<open>SessionStore.findByUser(userId) -> Session | absent\<close> of section 4.2 (the service is
  in \<open>modules/auth/services\<close>, not among the sources).\<close>

definition findToken :: "db \<Rightarrow> string \<Rightarrow> (nat \<times> UserToken) option" where
  "findToken st userId = find_first (\<lambda>t. uid (user t) = userId) (tokens st)"

text \<open>Modelled from the spec: \<open>IAuthService.signOut(user)\<close>, which "invalidates the
  user's live session; idempotent (no error if already absent)" (section 4.6). It is
  given the user and not a session, so it removes what is stored for that user.\<close>

definition signOut :: "db \<Rightarrow> User \<Rightarrow> db" where
  "signOut st u = st\<lparr>tokens := filter (\<lambda>t. uid (user t) \<noteq> uid u) (tokens st)\<rparr>"

text \<open>Modelled from the spec: \<open>IAuthService.signIn(payload)\<close>, the
  \<open>SessionStore.save(session) -> Session\<close> of section 4.2 for a new session. A session
  has an active workspace (section 3); a payload without one cannot be stored, a storage
  failure, which section 7 wraps as \<open>Internal\<close>.\<close>

record ICreateUserTokenPayload =
  p_token :: string
  p_encoder :: "string option"
  p_provider :: string
  p_expired_at :: "int option"
  p_payload :: string
  p_user :: User
  p_workspace :: "Workspace option"

definition authService_signIn :: "db \<Rightarrow> ICreateUserTokenPayload \<Rightarrow> (error + UserToken) \<times> db" where
  "authService_signIn st p =
     (case p_workspace p of
        None \<Rightarrow> (Inl Internal, st)
      | Some w \<Rightarrow>
          (let t = \<lparr>token = p_token p, user = p_user p, workspace = w,
                    expired_at = p_expired_at p, encoder = p_encoder p,
                    provider = p_provider p, payload = p_payload p\<rparr>
           in (Inr t, st\<lparr>tokens := tokens st @ [t]\<rparr>)))"

text \<open>\<open>token.save()\<close> on a session loaded from row \<open>i\<close>.\<close>

definition token_save :: "db \<Rightarrow> nat \<Rightarrow> UserToken \<Rightarrow> db" where
  "token_save st i t = st\<lparr>tokens := (tokens st)[i := t]\<rparr>"


text \<open>Modelled from the spec: the queries of \<open>WorkspaceService\<close>
  (\<open>modules/workspace/services\<close>, not among the sources; section 6: "workspace query by
  id, by owner, by single flag"). The two filters are the ones the controllers build:
  \<open>{ id }\<close> and \<open>{ owner, single }\<close>.\<close>

datatype IFilterWorkspace = FilterId string | FilterOwnerSingle string bool

fun matches :: "IFilterWorkspace \<Rightarrow> Workspace \<Rightarrow> bool" where
  "matches (FilterId i) w = (wid w = i)"
| "matches (FilterOwnerSingle ow s) w = (uid (owner w) = ow \<and> single w = s)"

definition workspace_first :: "db \<Rightarrow> IFilterWorkspace \<Rightarrow> (nat \<times> Workspace) option" where
  "workspace_first st f = find_first (matches f) (workspaces st)"

text \<open>\<open>workspace.save()\<close> on a workspace loaded from row \<open>i\<close>.\<close>

definition workspace_save :: "db \<Rightarrow> nat \<Rightarrow> Workspace \<Rightarrow> db" where
  "workspace_save st i w = st\<lparr>workspaces := (workspaces st)[i := w]\<rparr>"

text \<open>Modelled from the spec: \<open>IUserService.findOne(id)\<close> and \<open>findByAddress\<close>, declared
  in \<open>modules/user/types.ts\<close> as \<open>Promise<User>\<close> and \<open>Promise<User | undefined>\<close>; an
  absent user is the \<open>NotFound\<close> of section 7.\<close>

definition findOne :: "db \<Rightarrow> string \<Rightarrow> error + User" where
  "findOne st i =
     (case find_first (\<lambda>u. uid u = i) (users st) of
        None \<Rightarrow> Inl NotFound
      | Some (_, u) \<Rightarrow> Inr u)"

definition findByAddress :: "db \<Rightarrow> string \<Rightarrow> User option" where
  "findByAddress st a = map_option snd (find_first (\<lambda>u. address u = a) (users st))"


section \<open>AuthController\<close>

text \<open>
  The body of a sign-in request. Its type \<open>ISignInRequest\<close> is declared in
  \<open>modules/auth/types\<close>, not among the sources; the fields are those section 6 lists
  and \<open>signIn\<close> reads. \<open>workspace_id\<close> is optional.
\<close>

record ISignInBody =
  b_address :: string
  b_user_id :: string
  b_encoder :: string
  b_provider :: string
  b_createdAt :: int
  b_signature :: string
  b_workspace_id :: "string option"

text \<open>The rest of the destructuring
  \<open>const { signature, workspace_id, ...payloadWithoutSignature } = req.body\<close>: every
  field of the body except the two named before the rest pattern.\<close>

record IPayloadWithoutSignature =
  s_address :: string
  s_user_id :: string
  s_encoder :: string
  s_provider :: string
  s_createdAt :: int

definition payloadWithoutSignature :: "ISignInBody \<Rightarrow> IPayloadWithoutSignature" where
  "payloadWithoutSignature b =
     \<lparr>s_address = b_address b, s_user_id = b_user_id b, s_encoder = b_encoder b,
      s_provider = b_provider b, s_createdAt = b_createdAt b\<rparr>"

text \<open>
  What \<open>signIn\<close> takes from outside the repository's sources: the environment variable,
  \<open>JSON.stringify\<close>, the check of \<open>Web3Utils.verifySignature\<close> (\<open>None\<close> when it
  returns, \<open>Some e\<close> when it throws \<open>e\<close>; its arguments are signature, message and
  signer address), the enumeration \<open>Encoder\<close>, JavaScript's \<open>Number\<close> and
  \<open>addMinutes\<close> of the date-fns package. \<open>Number\<close> answers with a floating-point
  number and \<open>addMinutes\<close> is the library's: neither is defined here, and the type
  \<open>'n\<close> of JavaScript numbers is left open. \<open>addMinutes\<close> answers with a time, or with
  \<open>None\<close> for the invalid date.
\<close>

record 'n env =
  TOKEN_EXPIRATION_TIME :: "string option"
  JSON_stringify :: "IPayloadWithoutSignature \<Rightarrow> string"
  verifySignature :: "string \<Rightarrow> string \<Rightarrow> string \<Rightarrow> error option"
  Encoder :: "string \<Rightarrow> string option"
  Number :: "string \<Rightarrow> 'n"
  addMinutes :: "int \<Rightarrow> 'n \<Rightarrow> int option"

text \<open>\<open>const expiresIn = process.env.TOKEN_EXPIRATION_TIME ?? '15'\<close>.\<close>

definition expiresIn :: "'n env \<Rightarrow> string" where
  "expiresIn e = (case TOKEN_EXPIRATION_TIME e of None \<Rightarrow> ''15'' | Some s \<Rightarrow> s)"

text \<open>The message handed to \<open>Web3Utils\<close>:
  \<open>JSON.stringify(payloadWithoutSignature)\<close>.\<close>

definition signed_message :: "'n env \<Rightarrow> ISignInBody \<Rightarrow> string" where
  "signed_message e b = JSON_stringify e (payloadWithoutSignature b)"

text \<open>The filter \<open>workspace_id ? { id: workspace_id } : { owner, single: true }\<close>; an
  empty string is falsy.\<close>

definition signIn_filter :: "ISignInBody \<Rightarrow> IFilterWorkspace" where
  "signIn_filter b =
     (case b_workspace_id b of
        None \<Rightarrow> FilterOwnerSingle (b_user_id b) True
      | Some w \<Rightarrow> if w = [] then FilterOwnerSingle (b_user_id b) True else FilterId w)"

text \<open>
  \<open>AuthController.signIn\<close>. \<open>Inr\<close> is \<open>successful(userToken, Responses.Ok)\<close>;
  \<open>Inl\<close> is the error the handler ends with, rethrown when it is a \<open>GeneralError\<close> and
  answered as \<open>error(e.error, e.statusCode)\<close> otherwise. The statements run in the
  order of the source: the old session is removed before the user is looked up.
\<close>

definition signIn :: "'n env \<Rightarrow> db \<Rightarrow> ISignInBody \<Rightarrow> (error + UserToken) \<times> db" where
  "signIn e st b =
     (case verifySignature e (b_signature b) (signed_message e b) (b_address b) of
        Some err \<Rightarrow> (Inl err, st)
      | None \<Rightarrow>
          (let st1 = (case findToken st (b_user_id b) of
                        None \<Rightarrow> st
                      | Some (_, existingToken) \<Rightarrow> signOut st (user existingToken));
               ws = map_option snd (workspace_first st1 (signIn_filter b))
           in (case findOne st1 (b_user_id b) of
                 Inl err \<Rightarrow> (Inl err, st1)
               | Inr u \<Rightarrow>
                   authService_signIn st1
                     \<lparr>p_token = b_signature b,
                      p_encoder = Encoder e (b_encoder b),
                      p_provider = b_provider b,
                      p_expired_at = addMinutes e (b_createdAt b) (Number e (expiresIn e)),
                      p_payload = signed_message e b,
                      p_user = u,
                      p_workspace = ws\<rparr>)))"

text \<open>The body of a switch-workspace request, \<open>const { workspace: workspaceId, user } =
  req.body\<close>, and the summary the handler answers with.\<close>

record IChangeWorkspaceBody =
  cw_workspace :: string
  cw_user :: string

record workspace_summary =
  ws_id :: string
  ws_name :: string
  ws_avatar :: string
  ws_permissions :: "IPermissions option"
  ws_single :: bool

record change_result =
  r_workspace :: workspace_summary
  r_token :: string
  r_avatar :: string
  r_address :: string

text \<open>
  \<open>AuthController.updateWorkspace\<close>. Every exception is caught and answered as
  \<open>error(e.error, e.statusCode)\<close>, which is \<open>Inl\<close>. When \<open>findToken\<close> gives
  \<open>undefined\<close>, the assignment \<open>token.workspace = workspace\<close> (guard true) or the call
  \<open>token.save()\<close> (guard false) raises the \<open>TypeError\<close>.
\<close>

definition updateWorkspace :: "db \<Rightarrow> IChangeWorkspaceBody \<Rightarrow> (error + change_result) \<times> db" where
  "updateWorkspace st body =
     (case workspace_first st (FilterId (cw_workspace body)) of
        None \<Rightarrow> (Inl NotFound, st)
      | Some (_, w) \<Rightarrow>
          (let isUserMember = find_first (\<lambda>m. uid m = cw_user body) (members w);
               hasPermission = (permissions w (cw_user body) \<noteq> None)
           in (case findToken st (cw_user body) of
                 None \<Rightarrow>
                   if isUserMember \<noteq> None \<or> hasPermission then (Inl TypeError, st)
                   else (Inl TypeError, st)
               | Some (i, t0) \<Rightarrow>
                   (let t = (if isUserMember \<noteq> None \<or> hasPermission
                             then t0\<lparr>workspace := w\<rparr> else t0);
                        st' = token_save st i t;
                        response = t
                    in (Inr \<lparr>r_workspace =
                               \<lparr>ws_id = wid (workspace response),
                                ws_name = name (workspace response),
                                ws_avatar = wavatar (workspace response),
                                ws_permissions =
                                  permissions (workspace response) (uid (user response)),
                                ws_single = single (workspace response)\<rparr>,
                             r_token = token response,
                             r_avatar = avatar (user response),
                             r_address = address (user response)\<rparr>, st')))))"


section \<open>WorkspaceController\<close>

text \<open>
  What the workspace handlers take from outside the repository's sources: the table
  \<open>defaultPermissions\<close> of \<open>@src/models/Workspace\<close>, \<open>defaultConfigurable['provider']\<close>
  of the \<open>bsafe\<close> package, the avatar \<open>UserService.randomAvatar()\<close> picks and the
  identifier the store gives a new user.
\<close>

record workspace_env =
  defaultPermissions :: "PermissionRoles \<Rightarrow> IPermissions"
  defaultProvider :: string
  randomAvatar :: string
  new_uid :: "User list \<Rightarrow> string"

text \<open>Modelled from the spec: \<open>IUserService.create(payload)\<close>, which stores a new user
  ("created on first sign-in or first reference as a workspace member", section 3) and
  returns it.\<close>

definition user_create :: "workspace_env \<Rightarrow> db \<Rightarrow> string \<Rightarrow> string \<Rightarrow> string \<Rightarrow> User \<times> db" where
  "user_create we st a p av =
     (let u = \<lparr>uid = new_uid we (users st), address = a, uprovider = p, avatar = av\<rparr>
      in (u, st\<lparr>users := users st @ [u]\<rparr>))"

text \<open>
  \<open>WorkspaceController.updatePermissions\<close>. \<open>list()\<close> answers with an array, so
  \<open>!data\<close> is false and the \<open>Internal\<close> branch is not taken; when no workspace has the
  id, \<open>data[0]\<close> is \<open>undefined\<close> and \<open>workspace.owner\<close> raises the \<open>TypeError\<close>. The
  handler catches every exception and answers \<open>error(e.error, e.statusCode)\<close>.
\<close>

definition updatePermissions ::
  "db \<Rightarrow> string \<Rightarrow> string \<Rightarrow> IPermissions \<Rightarrow> (error + Workspace) \<times> db" where
  "updatePermissions st i member perms =
     (case workspace_first st (FilterId i) of
        None \<Rightarrow> (Inl TypeError, st)
      | Some (row, w) \<Rightarrow>
          if uid (owner w) = member then (Inl (Unauthorized MISSING_PERMISSION), st)
          else (let w' = w\<lparr>permissions := (permissions w)(member \<mapsto> perms)\<rparr>
                in (Inr w', workspace_save st row w')))"

text \<open>
  \<open>WorkspaceController.addMember\<close>. The parameter \<open>member\<close> is a user id when it has at
  most 36 characters and an address otherwise; an unknown address creates the user. The
  workspace is dereferenced only after the member is resolved.
\<close>

definition addMember ::
  "workspace_env \<Rightarrow> db \<Rightarrow> string \<Rightarrow> string \<Rightarrow> (error + Workspace) \<times> db" where
  "addMember we st i member =
     (let found = workspace_first st (FilterId i);
          (r, st1) =
            (if length member \<le> 36 then (findOne st member, st)
             else (case findByAddress st member of
                     Some u \<Rightarrow> (Inr u, st)
                   | None \<Rightarrow>
                       (let (u, st') = user_create we st member (defaultProvider we)
                                         (randomAvatar we)
                        in (Inr u, st'))))
      in (case r of
            Inl err \<Rightarrow> (Inl err, st1)
          | Inr m \<Rightarrow>
              (case found of
                 None \<Rightarrow> (Inl TypeError, st1)
               | Some (row, w) \<Rightarrow>
                   (let w' = (if find_first (\<lambda>x. uid x = uid m) (members w) = None
                              then w\<lparr>members := members w @ [m],
                                     permissions :=
                                       (permissions w)(uid m \<mapsto> defaultPermissions we VIEWER)\<rparr>
                              else w)
                    in (Inr w', workspace_save st1 row w')))))"

text \<open>\<open>WorkspaceController.removeMember\<close>. As in \<open>updatePermissions\<close>, an unknown
  workspace id ends in the \<open>TypeError\<close> of \<open>data[0].owner\<close>.\<close>

definition removeMember :: "db \<Rightarrow> string \<Rightarrow> string \<Rightarrow> (error + Workspace) \<times> db" where
  "removeMember st i member =
     (case workspace_first st (FilterId i) of
        None \<Rightarrow> (Inl TypeError, st)
      | Some (row, w) \<Rightarrow>
          if uid (owner w) = member then (Inl (Unauthorized MISSING_PERMISSION), st)
          else (let w' = w\<lparr>members := filter (\<lambda>m. uid m \<noteq> member) (members w),
                            permissions := (permissions w)(member := None)\<rparr>
                in (Inr w', workspace_save st row w')))"


section \<open>A small deployment to run the handlers on\<close>

text \<open>
  A validator to run the gate on. It follows the check that the commented-out
  diagnostic of the middleware prints
  (\<open>permission.filter(p => workspace.permissions[user.id][p].includes('*'))\<close>): some
  required role whose capability list in the caller's entry holds the wildcard. Reading
  a role of a missing entry, or \<open>includes\<close> of a missing role, is a \<open>TypeError\<close>.
\<close>

fun wildcard_roles :: "IPermissions \<Rightarrow> PermissionRoles list \<Rightarrow> error + PermissionRoles list" where
  "wildcard_roles p [] = Inr []"
| "wildcard_roles p (r # rs) =
     (case map_of p r of
        None \<Rightarrow> Inl TypeError
      | Some cs \<Rightarrow>
          (case wildcard_roles p rs of
             Inl err \<Rightarrow> Inl err
           | Inr ks \<Rightarrow> Inr (if ''*'' \<in> set cs then r # ks else ks)))"

definition validate_wildcard ::
  "Workspace \<Rightarrow> string \<Rightarrow> PermissionRoles list \<Rightarrow> error + bool" where
  "validate_wildcard w u ps =
     (case permissions w u of
        None \<Rightarrow> Inl TypeError
      | Some p \<Rightarrow>
          (case wildcard_roles p ps of
             Inl err \<Rightarrow> Inl err
           | Inr ks \<Rightarrow> Inr (0 < length ks)))"

definition olga :: User where
  "olga = \<lparr>uid = ''o1'', address = ''0xo1'', uprovider = ''net'', avatar = ''o1.png''\<rparr>"

definition mike :: User where
  "mike = \<lparr>uid = ''u1'', address = ''0xu1'', uprovider = ''net'', avatar = ''u1.png''\<rparr>"

definition xena :: User where
  "xena = \<lparr>uid = ''u2'', address = ''0xu2'', uprovider = ''net'', avatar = ''u2.png''\<rparr>"

definition owner_perms :: IPermissions where
  "owner_perms = [(OWNER, [''*'']), (VIEWER, [''*''])]"

definition viewer_perms :: IPermissions where
  "viewer_perms = [(OWNER, []), (VIEWER, [''*''])]"

definition custom_perms :: IPermissions where
  "custom_perms = [(OWNER, []), (MANAGER, [''*'']), (VIEWER, [''*''])]"

text \<open>A shared workspace of \<open>olga\<close> with \<open>mike\<close> as a member, \<open>olga\<close>'s own workspace,
  and a workspace whose permissions map is empty.\<close>

definition team :: Workspace where
  "team = \<lparr>wid = ''w2'', name = ''team'', wavatar = ''w2.png'', single = False,
           owner = olga, members = [olga, mike],
           permissions = [''o1'' \<mapsto> owner_perms, ''u1'' \<mapsto> custom_perms]\<rparr>"

definition home :: Workspace where
  "home = \<lparr>wid = ''w1'', name = ''home'', wavatar = ''w1.png'', single = True,
           owner = xena, members = [xena],
           permissions = [''u2'' \<mapsto> owner_perms]\<rparr>"

definition bare :: Workspace where
  "bare = \<lparr>wid = ''w3'', name = ''bare'', wavatar = ''w3.png'', single = False,
           owner = olga, members = [], permissions = Map.empty\<rparr>"


text \<open>Decimal digits of a natural number, for the serialisation below.\<close>

fun show_nat :: "nat \<Rightarrow> string" where
  "show_nat n =
     (if n < 10 then [char_of (n + 48)]
      else show_nat (n div 10) @ [char_of (n mod 10 + 48)])"

declare show_nat.simps [simp del]

text \<open>
  An environment to run \<open>signIn\<close> in: no \<open>TOKEN_EXPIRATION_TIME\<close>, a serialisation
  that lists the fields of the payload, and a toy signature scheme in which the
  signature of a message by an address is the text \<open>sig:address:message\<close>.

  The two library functions are given on the inputs the examples use. \<open>minutes_of\<close>
  is the value of \<open>Number\<close> at the strings \<open>15\<close> and \<open>30\<close>; it is a table, not a
  reading of JavaScript's numeric strings, and \<open>None\<close> is a string outside the table.
  \<open>add_minutes\<close> adds a whole number of minutes to a time and answers with the invalid
  date outside the range of a JavaScript \<open>Date\<close>; the examples evaluate it on table
  entries only.
\<close>

definition minutes_of :: "string \<Rightarrow> int option" where
  "minutes_of = map_of [(''15'', 15), (''30'', 30)]"

definition add_minutes :: "int \<Rightarrow> int option \<Rightarrow> int option" where
  "add_minutes d amount =
     (case amount of
        None \<Rightarrow> None
      | Some n \<Rightarrow>
          (let r = d + n * 60000
           in if - 8640000000000000 \<le> r \<and> r \<le> 8640000000000000 then Some r else None))"

definition stringify_fields :: "IPayloadWithoutSignature \<Rightarrow> string" where
  "stringify_fields p =
     s_address p @ '','' @ s_user_id p @ '','' @ s_encoder p @ '','' @ s_provider p @ '',''
       @ show_nat (nat (s_createdAt p))"

definition toy_verify :: "string \<Rightarrow> string \<Rightarrow> string \<Rightarrow> error option" where
  "toy_verify sg msg addr =
     (if sg = ''sig:'' @ addr @ '':'' @ msg then None else Some (Thrown ''Invalid signature''))"

definition toy_encoder :: "string \<Rightarrow> string option" where
  "toy_encoder k = (if k = ''fuel'' then Some ''FUEL'' else None)"

definition env0 :: "int option env" where
  "env0 = \<lparr>TOKEN_EXPIRATION_TIME = None, JSON_stringify = stringify_fields,
           verifySignature = toy_verify, Encoder = toy_encoder,
           Number = minutes_of, addMinutes = add_minutes\<rparr>"


definition wenv0 :: workspace_env where
  "wenv0 = \<lparr>defaultPermissions = (\<lambda>r. if r = VIEWER then viewer_perms else owner_perms),
            defaultProvider = ''net'', randomAvatar = ''new.png'',
            new_uid = (\<lambda>us. ''n'' @ show_nat (length us))\<rparr>"

text \<open>A session of \<open>xena\<close> on her own workspace, and a store that holds it.\<close>

definition xena_session :: UserToken where
  "xena_session = \<lparr>token = ''sig:0xu2:old'', user = xena, workspace = home,
                   expired_at = Some 900000, encoder = Some ''FUEL'', provider = ''net'',
                   payload = ''old''\<rparr>"

definition db0 :: db where
  "db0 = \<lparr>tokens = [xena_session], workspaces = [home, team, bare],
          users = [olga, mike, xena]\<rparr>"

text \<open>Two sign-in requests of \<open>xena\<close>, signed in the toy scheme at times 1000 and 2000,
  the second of which also names the workspace \<open>w1\<close>.\<close>

definition body1 :: ISignInBody where
  "body1 = \<lparr>b_address = ''0xu2'', b_user_id = ''u2'', b_encoder = ''fuel'',
            b_provider = ''net'', b_createdAt = 1000,
            b_signature = ''sig:0xu2:0xu2,u2,fuel,net,1000'', b_workspace_id = None\<rparr>"

definition body2 :: ISignInBody where
  "body2 = \<lparr>b_address = ''0xu2'', b_user_id = ''u2'', b_encoder = ''fuel'',
            b_provider = ''net'', b_createdAt = 2000,
            b_signature = ''sig:0xu2:0xu2,u2,fuel,net,2000'', b_workspace_id = Some ''w1''\<rparr>"

text \<open>The sessions these two requests lead to, and the store after each.\<close>

definition session1 :: UserToken where
  "session1 = \<lparr>token = ''sig:0xu2:0xu2,u2,fuel,net,1000'', user = xena, workspace = home,
               expired_at = Some 901000, encoder = Some ''FUEL'', provider = ''net'',
               payload = ''0xu2,u2,fuel,net,1000''\<rparr>"



definition db1 :: db where
  "db1 = \<lparr>tokens = [session1], workspaces = [home, team, bare],
          users = [olga, mike, xena]\<rparr>"


section \<open>The gate: owner and empty requirement\<close>

lemma gate_no_requirement:
  "authPermissionMiddleware validate None req = Next"
  "authPermissionMiddleware validate (Some []) req = Next"
  by (simp_all add: authPermissionMiddleware_def)

lemma gate_required:
  assumes "ps \<noteq> []"
  shows "authPermissionMiddleware validate (Some ps) req =
           (case req_user req of
              None \<Rightarrow> NextError (Unauthorized MISSING_CREDENTIALS)
            | Some u \<Rightarrow>
                (case req_workspace req of
                   None \<Rightarrow> NextError (Unauthorized MISSING_CREDENTIALS)
                 | Some w \<Rightarrow>
                     if permissions w (uid u) = None
                     then NextError (Unauthorized MISSING_PERMISSION)
                     else (case validate w (uid u) ps of
                             Inl err \<Rightarrow> NextError err
                           | Inr ok \<Rightarrow>
                               if ok then Next
                               else NextError (Unauthorized MISSING_PERMISSION))))"
  using assms by (auto simp: authPermissionMiddleware_def split: option.splits)

text \<open>
  C1, as stated, fails: the owner of a workspace whose permissions map has no entry
  under the owner's id asks for an endpoint that requires \<open>VIEWER\<close>, and the gate
  answers \<open>MISSING_PERMISSION\<close>.
\<close>

theorem owner_without_entry_rejected:
  "permissions bare (uid (owner bare)) = None \<and>
   authPermissionMiddleware validate_wildcard (Some [VIEWER])
     \<lparr>req_user = Some (owner bare), req_workspace = Some bare\<rparr>
   = NextError (Unauthorized MISSING_PERMISSION)"
  by (simp add: authPermissionMiddleware_def bare_def olga_def)

text \<open>
  C1, amended: the gate has no case for the owner. A request of the owner is admitted
  exactly when the endpoint requires nothing, or the permissions map has an entry under
  the owner's id and \<open>validatePermissionGeneral\<close> returns true; with a
  requirement and no such entry the answer is \<open>MISSING_PERMISSION\<close>.
\<close>

theorem owner_admitted_iff:
  "(authPermissionMiddleware validate permission
      \<lparr>req_user = Some (owner w), req_workspace = Some w\<rparr> = Next
    \<longleftrightarrow> (permission = None \<or> permission = Some [] \<or>
         (\<exists>ps. permission = Some ps \<and> permissions w (uid (owner w)) \<noteq> None \<and>
               validate w (uid (owner w)) ps = Inr True)))
   \<and> (\<forall>ps. ps \<noteq> [] \<longrightarrow> permissions w (uid (owner w)) = None \<longrightarrow>
         authPermissionMiddleware validate (Some ps)
           \<lparr>req_user = Some (owner w), req_workspace = Some w\<rparr>
         = NextError (Unauthorized MISSING_PERMISSION))"
proof (intro conjI allI impI)
  show "authPermissionMiddleware validate permission
          \<lparr>req_user = Some (owner w), req_workspace = Some w\<rparr> = Next
        \<longleftrightarrow> (permission = None \<or> permission = Some [] \<or>
             (\<exists>ps. permission = Some ps \<and> permissions w (uid (owner w)) \<noteq> None \<and>
                   validate w (uid (owner w)) ps = Inr True))"
  proof (cases permission)
    case None
    then show ?thesis by (simp add: gate_no_requirement)
  next
    case (Some ps)
    show ?thesis
    proof (cases "ps = []")
      case True
      with Some show ?thesis by (simp add: gate_no_requirement)
    next
      case False
      with Some show ?thesis
        by (auto simp: gate_required split: sum.splits)
    qed
  qed
next
  fix ps :: "PermissionRoles list"
  assume "ps \<noteq> []" and "permissions w (uid (owner w)) = None"
  then show "authPermissionMiddleware validate (Some ps)
               \<lparr>req_user = Some (owner w), req_workspace = Some w\<rparr>
             = NextError (Unauthorized MISSING_PERMISSION)"
    by (simp add: gate_required)
qed

theorem owner_admitted_iff_witness:
  "permissions team (uid (owner team)) \<noteq> None \<and>
   validate_wildcard team (uid (owner team)) [OWNER] = Inr True \<and>
   authPermissionMiddleware validate_wildcard (Some [OWNER])
     \<lparr>req_user = Some (owner team), req_workspace = Some team\<rparr> = Next \<and>
   permissions bare (uid (owner bare)) = None \<and>
   authPermissionMiddleware validate_wildcard (Some [OWNER])
     \<lparr>req_user = Some (owner bare), req_workspace = Some bare\<rparr>
   = NextError (Unauthorized MISSING_PERMISSION)"
proof -
  have e: "permissions team (uid (owner team)) \<noteq> None"
    by (simp add: team_def olga_def)
  have v: "validate_wildcard team (uid (owner team)) [OWNER] = Inr True"
    by (simp add: validate_wildcard_def team_def olga_def owner_perms_def)
  have n: "permissions bare (uid (owner bare)) = None"
    by (simp add: bare_def)
  from owner_admitted_iff [of validate_wildcard "Some [OWNER]" team] e v
  have a: "authPermissionMiddleware validate_wildcard (Some [OWNER])
             \<lparr>req_user = Some (owner team), req_workspace = Some team\<rparr> = Next"
    by blast
  from owner_admitted_iff [of validate_wildcard "Some [OWNER]" bare] n
  have r: "authPermissionMiddleware validate_wildcard (Some [OWNER])
             \<lparr>req_user = Some (owner bare), req_workspace = Some bare\<rparr>
           = NextError (Unauthorized MISSING_PERMISSION)"
    by blast
  from e v a n r show ?thesis by blast
qed

text \<open>
  C9, as stated, fails: an endpoint with an empty requirement is asked with neither user
  nor workspace in the request context, and the gate answers \<open>next()\<close>.
\<close>

theorem empty_requirement_admits_without_context:
  "authPermissionMiddleware validate_wildcard (Some [])
     \<lparr>req_user = None, req_workspace = None\<rparr> = Next"
  by (simp add: authPermissionMiddleware_def)

text \<open>
  C9, amended: with an empty or absent requirement the gate admits the request whether
  or not user and workspace are in the request context; the \<open>MISSING_CREDENTIALS\<close>
  rejection for an absent user or workspace is given when the requirement is not empty.
\<close>

theorem empty_requirement_gate:
  "authPermissionMiddleware validate None req = Next \<and>
   authPermissionMiddleware validate (Some []) req = Next \<and>
   (ps \<noteq> [] \<longrightarrow> (req_user req = None \<or> req_workspace req = None) \<longrightarrow>
      authPermissionMiddleware validate (Some ps) req
      = NextError (Unauthorized MISSING_CREDENTIALS))"
  by (auto simp: gate_no_requirement gate_required split: option.splits)

theorem empty_requirement_gate_witness:
  "authPermissionMiddleware validate_wildcard None
     \<lparr>req_user = None, req_workspace = Some team\<rparr> = Next \<and>
   authPermissionMiddleware validate_wildcard (Some [])
     \<lparr>req_user = None, req_workspace = Some team\<rparr> = Next \<and>
   authPermissionMiddleware validate_wildcard (Some [VIEWER])
     \<lparr>req_user = None, req_workspace = Some team\<rparr>
   = NextError (Unauthorized MISSING_CREDENTIALS)"
  using empty_requirement_gate
    [of validate_wildcard "\<lparr>req_user = None, req_workspace = Some team\<rparr>" "[VIEWER]"]
  by simp


section \<open>Queries\<close>

lemma find_first_None_iff: "find_first P xs = None \<longleftrightarrow> (\<forall>x \<in> set xs. \<not> P x)"
  by (induction xs) (auto split: option.splits)

lemma find_first_SomeD:
  "find_first P xs = Some (i, x) \<Longrightarrow> i < length xs \<and> xs ! i = x \<and> P x"
proof (induction xs arbitrary: i)
  case Nil
  then show ?case by simp
next
  case (Cons a xs)
  show ?case
  proof (cases "P a")
    case True
    with Cons.prems show ?thesis by simp
  next
    case False
    with Cons.prems obtain j where j: "find_first P xs = Some (j, x)" and i: "i = Suc j"
      by (auto split: option.splits)
    from Cons.IH [OF j] i show ?thesis by simp
  qed
qed

lemma find_first_update:
  "find_first P xs = Some (i, x) \<Longrightarrow> P y \<Longrightarrow> find_first P (xs[i := y]) = Some (i, y)"
proof (induction xs arbitrary: i)
  case Nil
  then show ?case by simp
next
  case (Cons a xs)
  show ?case
  proof (cases "P a")
    case True
    with Cons.prems show ?thesis by simp
  next
    case False
    with Cons.prems obtain j where j: "find_first P xs = Some (j, x)" and i: "i = Suc j"
      by (auto split: option.splits)
    from Cons.IH [OF j Cons.prems(2)] i False show ?thesis by simp
  qed
qed

lemma find_first_append_fresh:
  "\<forall>x \<in> set xs. \<not> P x \<Longrightarrow> find_first P (xs @ ys) =
     (case find_first P ys of None \<Rightarrow> None | Some (i, y) \<Rightarrow> Some (length xs + i, y))"
  by (induction xs) (auto split: option.splits)

lemma find_first_uid_absent:
  "k \<notin> uid ` set us \<Longrightarrow> find_first (\<lambda>m. uid m = k) us = None"
  by (induction us) auto

lemma token_save_same:
  "findToken st u = Some (i, t) \<Longrightarrow> token_save st i t = st"
  by (auto simp: findToken_def token_save_def dest!: find_first_SomeD)

section \<open>Switching the active workspace\<close>

text \<open>Once the target workspace is found, the outcome of \<open>updateWorkspace\<close> for a
  caller without a stored session, and for a caller with one who is neither a member nor
  has an entry in the permissions map.\<close>

lemma updateWorkspace_no_token:
  assumes "workspace_first st (FilterId (cw_workspace body)) = Some (row, w)"
    and "findToken st (cw_user body) = None"
  shows "updateWorkspace st body = (Inl TypeError, st)"
  using assms by (simp add: updateWorkspace_def)

lemma updateWorkspace_outsider:
  assumes "workspace_first st (FilterId (cw_workspace body)) = Some (row, w)"
    and "cw_user body \<notin> uid ` set (members w)"
    and "permissions w (cw_user body) = None"
    and "findToken st (cw_user body) = Some (i, t)"
  shows "updateWorkspace st body =
           (Inr \<lparr>r_workspace =
                   \<lparr>ws_id = wid (workspace t), ws_name = name (workspace t),
                    ws_avatar = wavatar (workspace t),
                    ws_permissions = permissions (workspace t) (uid (user t)),
                    ws_single = single (workspace t)\<rparr>,
                 r_token = token t, r_avatar = avatar (user t),
                 r_address = address (user t)\<rparr>, st)"
proof -
  from assms(2) have "find_first (\<lambda>m. uid m = cw_user body) (members w) = None"
    by (rule find_first_uid_absent)
  with assms(1,3,4) token_save_same [OF assms(4)] show ?thesis
    by (simp add: updateWorkspace_def)
qed

text \<open>
  C3, as stated, fails: \<open>xena\<close>, whose session is on her own workspace, asks to switch
  to \<open>team\<close>, of which she is no member and in whose permissions map she has no entry;
  the handler answers with a success response, the summary of her own workspace.
\<close>

theorem switch_by_outsider_succeeds:
  "find_first (\<lambda>m. uid m = ''u2'') (members team) = None \<and>
   permissions team ''u2'' = None \<and>
   fst (updateWorkspace db0 \<lparr>cw_workspace = ''w2'', cw_user = ''u2''\<rparr>) =
     Inr \<lparr>r_workspace =
            \<lparr>ws_id = ''w1'', ws_name = ''home'', ws_avatar = ''w1.png'',
             ws_permissions = Some owner_perms, ws_single = True\<rparr>,
          r_token = ''sig:0xu2:old'', r_avatar = ''u2.png'', r_address = ''0xu2''\<rparr>"
  by (simp add: updateWorkspace_def workspace_first_def findToken_def token_save_def
      db0_def team_def home_def bare_def xena_session_def olga_def mike_def xena_def)

text \<open>
  C3, amended: when the caller is neither a member of the target workspace nor has an
  entry in its permissions map, the handler does not reject the request for that
  reason. With a stored session of the caller it answers with a success response that
  describes the workspace the session was on; the only error it ends with is the
  \<open>TypeError\<close> of a caller without a stored session.
\<close>

theorem switch_by_outsider_response:
  assumes "workspace_first st (FilterId (cw_workspace body)) = Some (row, w)"
    and "cw_user body \<notin> uid ` set (members w)"
    and "permissions w (cw_user body) = None"
  shows "(\<forall>i t. findToken st (cw_user body) = Some (i, t) \<longrightarrow>
            fst (updateWorkspace st body) =
              Inr \<lparr>r_workspace =
                     \<lparr>ws_id = wid (workspace t), ws_name = name (workspace t),
                      ws_avatar = wavatar (workspace t),
                      ws_permissions = permissions (workspace t) (uid (user t)),
                      ws_single = single (workspace t)\<rparr>,
                   r_token = token t, r_avatar = avatar (user t),
                   r_address = address (user t)\<rparr>)
       \<and> (\<forall>err. fst (updateWorkspace st body) = Inl err \<longrightarrow>
            err = TypeError \<and> findToken st (cw_user body) = None)"
proof (intro conjI allI impI)
  fix i t
  assume "findToken st (cw_user body) = Some (i, t)"
  from updateWorkspace_outsider [OF assms this]
  show "fst (updateWorkspace st body) =
          Inr \<lparr>r_workspace =
                 \<lparr>ws_id = wid (workspace t), ws_name = name (workspace t),
                  ws_avatar = wavatar (workspace t),
                  ws_permissions = permissions (workspace t) (uid (user t)),
                  ws_single = single (workspace t)\<rparr>,
               r_token = token t, r_avatar = avatar (user t),
               r_address = address (user t)\<rparr>"
    by simp
next
  fix err
  assume e: "fst (updateWorkspace st body) = Inl err"
  show "err = TypeError"
  proof (cases "findToken st (cw_user body)")
    case None
    from updateWorkspace_no_token [OF assms(1) None] e show ?thesis by simp
  next
    case (Some p)
    then obtain i t where "findToken st (cw_user body) = Some (i, t)" by (cases p) simp
    from updateWorkspace_outsider [OF assms this] e show ?thesis by simp
  qed
  show "findToken st (cw_user body) = None"
  proof (cases "findToken st (cw_user body)")
    case None
    then show ?thesis .
  next
    case (Some p)
    then obtain i t where "findToken st (cw_user body) = Some (i, t)" by (cases p) simp
    from updateWorkspace_outsider [OF assms this] e show ?thesis by simp
  qed
qed


lemma db0_team: "workspace_first db0 (FilterId ''w2'') = Some (Suc 0, team)"
  by (simp add: workspace_first_def db0_def home_def team_def)

lemma db0_xena_session: "findToken db0 ''u2'' = Some (0, xena_session)"
  by (simp add: findToken_def db0_def xena_session_def xena_def)

lemma db0_mike_no_session: "findToken db0 ''u1'' = None"
  by (simp add: findToken_def db0_def xena_session_def xena_def)

lemma xena_outside_team:
  "''u2'' \<notin> uid ` set (members team)" "permissions team ''u2'' = None"
  by (simp_all add: team_def olga_def mike_def)

theorem switch_by_outsider_response_witness:
  "workspace_first db0 (FilterId ''w2'') = Some (Suc 0, team) \<and>
   ''u2'' \<notin> uid ` set (members team) \<and>
   permissions team ''u2'' = None \<and>
   findToken db0 ''u2'' = Some (0, xena_session) \<and>
   fst (updateWorkspace db0 \<lparr>cw_workspace = ''w2'', cw_user = ''u2''\<rparr>) =
     Inr \<lparr>r_workspace =
            \<lparr>ws_id = ''w1'', ws_name = ''home'', ws_avatar = ''w1.png'',
             ws_permissions = Some owner_perms, ws_single = True\<rparr>,
          r_token = ''sig:0xu2:old'', r_avatar = ''u2.png'', r_address = ''0xu2''\<rparr>"
proof -
  let ?body = "\<lparr>cw_workspace = ''w2'', cw_user = ''u2''\<rparr>"
  have w: "workspace_first db0 (FilterId (cw_workspace ?body)) = Some (Suc 0, team)"
    by (simp add: db0_team)
  have m: "cw_user ?body \<notin> uid ` set (members team)"
    by (simp add: xena_outside_team)
  have p: "permissions team (cw_user ?body) = None"
    by (simp add: xena_outside_team)
  have t: "findToken db0 (cw_user ?body) = Some (0, xena_session)"
    by (simp add: db0_xena_session)
  from switch_by_outsider_response [OF w m p] t
  have "fst (updateWorkspace db0 ?body) =
          Inr \<lparr>r_workspace =
                 \<lparr>ws_id = wid (workspace xena_session),
                  ws_name = name (workspace xena_session),
                  ws_avatar = wavatar (workspace xena_session),
                  ws_permissions =
                    permissions (workspace xena_session) (uid (user xena_session)),
                  ws_single = single (workspace xena_session)\<rparr>,
               r_token = token xena_session, r_avatar = avatar (user xena_session),
               r_address = address (user xena_session)\<rparr>"
    by blast
  then have "fst (updateWorkspace db0 ?body) =
     Inr \<lparr>r_workspace =
            \<lparr>ws_id = ''w1'', ws_name = ''home'', ws_avatar = ''w1.png'',
             ws_permissions = Some owner_perms, ws_single = True\<rparr>,
          r_token = ''sig:0xu2:old'', r_avatar = ''u2.png'', r_address = ''0xu2''\<rparr>"
    by (simp add: xena_session_def home_def xena_def)
  with db0_team xena_outside_team db0_xena_session show ?thesis by simp
qed

text \<open>
  C4: when the caller of \<open>updateWorkspace\<close> is neither a member of the target
  workspace nor has an entry in its permissions map, and a session of the caller is
  stored, the handler completes with a success response and leaves the store as it was:
  the caller's session is the same record, on the workspace it was on before.
\<close>

theorem switch_by_outsider_leaves_session:
  assumes "workspace_first st (FilterId (cw_workspace body)) = Some (row, w)"
    and "cw_user body \<notin> uid ` set (members w)"
    and "permissions w (cw_user body) = None"
    and "findToken st (cw_user body) = Some (i, t)"
  shows "snd (updateWorkspace st body) = st \<and>
         findToken (snd (updateWorkspace st body)) (cw_user body) = Some (i, t) \<and>
         (\<exists>r. fst (updateWorkspace st body) = Inr r \<and>
              ws_id (r_workspace r) = wid (workspace t) \<and> r_token r = token t)"
  using updateWorkspace_outsider [OF assms] assms(4) by simp

theorem switch_by_outsider_leaves_session_witness:
  "workspace_first db0 (FilterId ''w2'') = Some (Suc 0, team) \<and>
   ''u2'' \<notin> uid ` set (members team) \<and>
   permissions team ''u2'' = None \<and>
   findToken db0 ''u2'' = Some (0, xena_session) \<and>
   snd (updateWorkspace db0 \<lparr>cw_workspace = ''w2'', cw_user = ''u2''\<rparr>) = db0 \<and>
   (\<exists>r. fst (updateWorkspace db0 \<lparr>cw_workspace = ''w2'', cw_user = ''u2''\<rparr>) = Inr r \<and>
        ws_id (r_workspace r) = ''w1'')"
proof -
  let ?body = "\<lparr>cw_workspace = ''w2'', cw_user = ''u2''\<rparr>"
  have w: "workspace_first db0 (FilterId (cw_workspace ?body)) = Some (Suc 0, team)"
    by (simp add: db0_team)
  have m: "cw_user ?body \<notin> uid ` set (members team)"
    by (simp add: xena_outside_team)
  have p: "permissions team (cw_user ?body) = None"
    by (simp add: xena_outside_team)
  have t: "findToken db0 (cw_user ?body) = Some (0, xena_session)"
    by (simp add: db0_xena_session)
  have h: "wid (workspace xena_session) = ''w1''"
    by (simp add: xena_session_def home_def)
  from switch_by_outsider_leaves_session [OF w m p t] h
  have "snd (updateWorkspace db0 ?body) = db0 \<and>
        (\<exists>r. fst (updateWorkspace db0 ?body) = Inr r \<and> ws_id (r_workspace r) = ''w1'')"
    by auto
  with db0_team xena_outside_team db0_xena_session show ?thesis by simp
qed

text \<open>
  C10: \<open>updateWorkspace\<close> relies on a stored session of the caller. Once the target
  workspace is found, a caller without a stored session makes \<open>findToken\<close> answer
  \<open>undefined\<close>, which the handler dereferences: the request ends with the untyped
  \<open>TypeError\<close> and the store is untouched. With a stored session the handler answers
  with a success response, so that failure cannot occur.
\<close>

theorem switch_needs_stored_session:
  assumes "workspace_first st (FilterId (cw_workspace body)) = Some (row, w)"
  shows "(findToken st (cw_user body) = None \<longrightarrow>
            updateWorkspace st body = (Inl TypeError, st))
       \<and> (\<forall>i t. findToken st (cw_user body) = Some (i, t) \<longrightarrow>
            (\<exists>r. fst (updateWorkspace st body) = Inr r))"
  using assms by (simp add: updateWorkspace_def Let_def)

theorem switch_needs_stored_session_witness:
  "workspace_first db0 (FilterId ''w2'') = Some (Suc 0, team) \<and>
   findToken db0 ''u1'' = None \<and>
   updateWorkspace db0 \<lparr>cw_workspace = ''w2'', cw_user = ''u1''\<rparr> = (Inl TypeError, db0) \<and>
   findToken db0 ''u2'' = Some (0, xena_session) \<and>
   (\<exists>r. fst (updateWorkspace db0 \<lparr>cw_workspace = ''w2'', cw_user = ''u2''\<rparr>) = Inr r)"
proof -
  have a: "updateWorkspace db0 \<lparr>cw_workspace = ''w2'', cw_user = ''u1''\<rparr>
           = (Inl TypeError, db0)"
    using switch_needs_stored_session
      [of db0 "\<lparr>cw_workspace = ''w2'', cw_user = ''u1''\<rparr>" "Suc 0" team]
    by (simp add: db0_team db0_mike_no_session)
  have b: "\<exists>r. fst (updateWorkspace db0 \<lparr>cw_workspace = ''w2'', cw_user = ''u2''\<rparr>) = Inr r"
    using switch_needs_stored_session
      [of db0 "\<lparr>cw_workspace = ''w2'', cw_user = ''u2''\<rparr>" "Suc 0" team]
    by (simp add: db0_team db0_xena_session)
  from a b db0_team db0_mike_no_session db0_xena_session show ?thesis by simp
qed


section \<open>Members and permissions of a workspace\<close>

lemma workspace_first_saved:
  assumes "workspace_first st (FilterId i) = Some (row, w)" and "wid w' = i"
  shows "workspace_first (workspace_save st row w') (FilterId i) = Some (row, w')"
  using assms find_first_update [of "matches (FilterId i)" "workspaces st" row w w']
  by (simp add: workspace_first_def workspace_save_def)

lemma workspace_first_wid:
  "workspace_first st (FilterId i) = Some (row, w) \<Longrightarrow> wid w = i"
  by (auto simp: workspace_first_def dest!: find_first_SomeD)

lemma users_removeMember: "users (snd (removeMember st i member)) = users st"
  by (simp add: removeMember_def workspace_save_def Let_def split: option.splits)

lemma findOne_uid: "findOne st k = Inr u \<Longrightarrow> uid u = k"
  by (auto simp: findOne_def split: option.splits dest!: find_first_SomeD)

text \<open>
  C7: when the target member of \<open>updatePermissions\<close> or of \<open>removeMember\<close> is the
  owner of the workspace, the handler ends with the \<open>Unauthorized\<close> error and the store
  is as it was, so the workspace read back has the members and the permissions map it
  had.
\<close>

theorem owner_target_refused:
  assumes "workspace_first st (FilterId i) = Some (row, w)"
    and "member = uid (owner w)"
  shows "updatePermissions st i member perms = (Inl (Unauthorized MISSING_PERMISSION), st) \<and>
         removeMember st i member = (Inl (Unauthorized MISSING_PERMISSION), st) \<and>
         workspace_first (snd (updatePermissions st i member perms)) (FilterId i)
           = Some (row, w) \<and>
         workspace_first (snd (removeMember st i member)) (FilterId i) = Some (row, w)"
  using assms by (simp add: updatePermissions_def removeMember_def)

theorem owner_target_refused_witness:
  "workspace_first db0 (FilterId ''w2'') = Some (Suc 0, team) \<and>
   ''o1'' = uid (owner team) \<and>
   updatePermissions db0 ''w2'' ''o1'' viewer_perms
     = (Inl (Unauthorized MISSING_PERMISSION), db0) \<and>
   removeMember db0 ''w2'' ''o1'' = (Inl (Unauthorized MISSING_PERMISSION), db0)"
proof -
  have o: "''o1'' = uid (owner team)"
    by (simp add: team_def olga_def)
  from owner_target_refused [OF db0_team o, of viewer_perms] db0_team o
  show ?thesis by simp
qed

text \<open>
  C8: for a member other than the owner, \<open>removeMember\<close> succeeds and the saved
  workspace has neither the member nor an entry under the member's id; an \<open>addMember\<close>
  that follows and resolves to the same user, by id or by address, succeeds and gives
  that user the entry \<open>defaultPermissions[VIEWER]\<close>, whatever the entry was before.
\<close>

theorem removed_member_returns_as_viewer:
  assumes "workspace_first st (FilterId i) = Some (row, w)"
    and "member \<noteq> uid (owner w)"
  shows "\<exists>w1 st1.
           removeMember st i member = (Inr w1, st1) \<and>
           permissions w1 member = None \<and>
           member \<notin> uid ` set (members w1) \<and>
           workspace_first st1 (FilterId i) = Some (row, w1) \<and>
           (\<forall>key u. uid u = member \<longrightarrow>
              (length key \<le> 36 \<and> findOne st1 key = Inr u \<or>
               36 < length key \<and> findByAddress st1 key = Some u) \<longrightarrow>
              (\<exists>w2 st2.
                 addMember we st1 i key = (Inr w2, st2) \<and>
                 permissions w2 member = Some (defaultPermissions we VIEWER) \<and>
                 members w2 = members w1 @ [u] \<and>
                 workspace_first st2 (FilterId i) = Some (row, w2)))"
proof -
  define w1 where
    "w1 = w\<lparr>members := filter (\<lambda>m. uid m \<noteq> member) (members w),
            permissions := (permissions w)(member := None)\<rparr>"
  define st1 where "st1 = workspace_save st row w1"
  have wid: "wid w = i"
    using assms(1) by (rule workspace_first_wid)
  have rm: "removeMember st i member = (Inr w1, st1)"
    using assms by (auto simp: removeMember_def w1_def st1_def Let_def)
  have p1: "permissions w1 member = None"
    by (simp add: w1_def)
  have m1: "member \<notin> uid ` set (members w1)"
    by (auto simp: w1_def)
  have f1: "workspace_first st1 (FilterId i) = Some (row, w1)"
    unfolding st1_def using assms(1)
    by (rule workspace_first_saved) (simp add: w1_def wid)
  have add: "\<exists>w2 st2.
               addMember we st1 i key = (Inr w2, st2) \<and>
               permissions w2 member = Some (defaultPermissions we VIEWER) \<and>
               members w2 = members w1 @ [u] \<and>
               workspace_first st2 (FilterId i) = Some (row, w2)"
    if u: "uid u = member"
      and r: "length key \<le> 36 \<and> findOne st1 key = Inr u \<or>
              36 < length key \<and> findByAddress st1 key = Some u"
    for key u
  proof -
    define w2 where
      "w2 = w1\<lparr>members := members w1 @ [u],
               permissions := (permissions w1)(uid u \<mapsto> defaultPermissions we VIEWER)\<rparr>"
    have absent: "find_first (\<lambda>x. uid x = uid u) (members w1) = None"
      using m1 unfolding u by (rule find_first_uid_absent)
    from r have am: "addMember we st1 i key = (Inr w2, workspace_save st1 row w2)"
    proof
      assume "length key \<le> 36 \<and> findOne st1 key = Inr u"
      then show ?thesis
        by (simp add: addMember_def f1 absent w2_def Let_def)
    next
      assume "36 < length key \<and> findByAddress st1 key = Some u"
      then show ?thesis
        by (simp add: addMember_def f1 absent w2_def Let_def)
    qed
    have p2: "permissions w2 member = Some (defaultPermissions we VIEWER)"
      by (simp add: w2_def u)
    have m2: "members w2 = members w1 @ [u]"
      by (simp add: w2_def)
    have f2: "workspace_first (workspace_save st1 row w2) (FilterId i) = Some (row, w2)"
      using f1 by (rule workspace_first_saved) (simp add: w2_def w1_def wid)
    from am p2 m2 f2 show ?thesis by blast
  qed
  from rm p1 m1 f1 add show ?thesis by blast
qed


theorem removed_member_returns_as_viewer_witness:
  "workspace_first db0 (FilterId ''w2'') = Some (Suc 0, team) \<and>
   ''u1'' \<noteq> uid (owner team) \<and>
   permissions team ''u1'' = Some custom_perms \<and>
   custom_perms \<noteq> defaultPermissions wenv0 VIEWER \<and>
   (\<exists>w1 st1.
      removeMember db0 ''w2'' ''u1'' = (Inr w1, st1) \<and>
      permissions w1 ''u1'' = None \<and>
      (\<exists>w2 st2.
         addMember wenv0 st1 ''w2'' ''u1'' = (Inr w2, st2) \<and>
         permissions w2 ''u1'' = Some (defaultPermissions wenv0 VIEWER)))"
proof -
  have ne: "''u1'' \<noteq> uid (owner team)"
    by (simp add: team_def olga_def)
  have before: "permissions team ''u1'' = Some custom_perms"
    by (simp add: team_def)
  have differ: "custom_perms \<noteq> defaultPermissions wenv0 VIEWER"
    by (simp add: wenv0_def custom_perms_def viewer_perms_def)
  from removed_member_returns_as_viewer [OF db0_team ne, of wenv0]
  obtain w1 st1 where rm: "removeMember db0 ''w2'' ''u1'' = (Inr w1, st1)"
    and p1: "permissions w1 ''u1'' = None"
    and again: "\<And>key u. uid u = ''u1'' \<Longrightarrow>
          length key \<le> 36 \<and> findOne st1 key = Inr u \<or>
          36 < length key \<and> findByAddress st1 key = Some u \<Longrightarrow>
          \<exists>w2 st2. addMember wenv0 st1 ''w2'' key = (Inr w2, st2) \<and>
            permissions w2 ''u1'' = Some (defaultPermissions wenv0 VIEWER) \<and>
            members w2 = members w1 @ [u] \<and>
            workspace_first st2 (FilterId ''w2'') = Some (Suc 0, w2)"
    by blast
  from users_removeMember [of db0 "''w2''" "''u1''"] rm
  have "users st1 = users db0" by simp
  then have found: "findOne st1 ''u1'' = Inr mike"
    by (simp add: findOne_def db0_def olga_def mike_def)
  have "uid mike = ''u1''"
    by (simp add: mike_def)
  from again [OF this, of "''u1''"] found
  have "\<exists>w2 st2. addMember wenv0 st1 ''w2'' ''u1'' = (Inr w2, st2) \<and>
          permissions w2 ''u1'' = Some (defaultPermissions wenv0 VIEWER)"
    by auto
  with rm p1 db0_team ne before differ show ?thesis by blast
qed


section \<open>Signing in\<close>

lemma evict_existing:
  "(case findToken st k of
      None \<Rightarrow> st
    | Some (_, existingToken) \<Rightarrow> signOut st (user existingToken))
   = st\<lparr>tokens := filter (\<lambda>t. uid (user t) \<noteq> k) (tokens st)\<rparr>"
proof (cases "findToken st k")
  case None
  then have "\<forall>t \<in> set (tokens st). uid (user t) \<noteq> k"
    by (simp add: findToken_def find_first_None_iff)
  then have "filter (\<lambda>t. uid (user t) \<noteq> k) (tokens st) = tokens st"
    by (simp add: filter_id_conv)
  with None show ?thesis by simp
next
  case (Some p)
  then obtain i ex where p: "findToken st k = Some (i, ex)" by (cases p) simp
  then have "uid (user ex) = k"
    by (auto simp: findToken_def dest!: find_first_SomeD)
  with p show ?thesis by (simp add: signOut_def)
qed

lemma findOne_tokens_update [simp]: "findOne (st\<lparr>tokens := ts\<rparr>) k = findOne st k"
  by (simp add: findOne_def)

lemma workspace_first_tokens_update [simp]:
  "workspace_first (st\<lparr>tokens := ts\<rparr>) f = workspace_first st f"
  by (simp add: workspace_first_def)

text \<open>What a successful \<open>signIn\<close> has done.\<close>

lemma signIn_InrD:
  assumes "signIn e st b = (Inr t, st')"
  shows "verifySignature e (b_signature b) (signed_message e b) (b_address b) = None"
    and "token t = b_signature b"
    and "uid (user t) = b_user_id b"
    and "expired_at t = addMinutes e (b_createdAt b) (Number e (expiresIn e))"
    and "payload t = signed_message e b"
    and "st' = st\<lparr>tokens := filter (\<lambda>x. uid (user x) \<noteq> b_user_id b) (tokens st) @ [t]\<rparr>"
  using assms
  by (auto simp: signIn_def Let_def evict_existing authService_signIn_def
      split: option.splits sum.splits dest: findOne_uid)






lemma show_1000: "show_nat 1000 = ''1000''"
  by code_simp


lemma message_body1: "signed_message env0 body1 = ''0xu2,u2,fuel,net,1000''"
  by (simp add: signed_message_def env0_def payloadWithoutSignature_def
      stringify_fields_def body1_def show_1000)


lemma verify_body1:
  "verifySignature env0 (b_signature body1) (signed_message env0 body1) (b_address body1)
   = None"
  unfolding message_body1 by (simp add: env0_def toy_verify_def body1_def)


lemma ttl_env0: "addMinutes env0 d (Number env0 (expiresIn env0)) = add_minutes d (Some 15)"
  by (simp add: expiresIn_def env0_def minutes_of_def)



lemma signIn_body1: "signIn env0 db0 body1 = (Inr session1, db1)"
proof -
  have ev: "filter (\<lambda>t. uid (user t) \<noteq> ''u2'') (tokens db0) = []"
    by (simp add: db0_def xena_session_def xena_def)
  have ws: "workspace_first db0 (FilterOwnerSingle ''u2'' True) = Some (0, home)"
    by (simp add: workspace_first_def db0_def home_def xena_def)
  have us: "findOne db0 ''u2'' = Inr xena"
    by (simp add: findOne_def db0_def olga_def mike_def xena_def)
  have enc: "Encoder env0 ''fuel'' = Some ''FUEL''"
    by (simp add: env0_def toy_encoder_def)
  have b: "b_user_id body1 = ''u2''" "b_workspace_id body1 = None"
    "b_signature body1 = ''sig:0xu2:0xu2,u2,fuel,net,1000''" "b_encoder body1 = ''fuel''"
    "b_provider body1 = ''net''" "b_createdAt body1 = 1000"
    by (simp_all add: body1_def)
  have "signIn env0 db0 body1 =
          (Inr session1, db0\<lparr>tokens := [session1]\<rparr>)"
    unfolding signIn_def verify_body1
    by (simp add: message_body1 ttl_env0 Let_def evict_existing b ev ws us enc
        signIn_filter_def authService_signIn_def add_minutes_def session1_def)
  then show ?thesis by (simp add: db0_def db1_def)
qed





text \<open>
  C6, as stated, fails: a body that differs from \<open>body1\<close> only in naming the
  workspace \<open>w2\<close> has the same signed message, and the signature made for \<open>body1\<close>
  verifies it. The field \<open>workspace_id\<close> is not part of what is signed.
\<close>

theorem workspace_id_not_signed:
  "b_workspace_id (body1\<lparr>b_workspace_id := Some ''w2''\<rparr>) \<noteq> b_workspace_id body1 \<and>
   signed_message env0 (body1\<lparr>b_workspace_id := Some ''w2''\<rparr>)
     = signed_message env0 body1 \<and>
   verifySignature env0 (b_signature (body1\<lparr>b_workspace_id := Some ''w2''\<rparr>))
     (signed_message env0 (body1\<lparr>b_workspace_id := Some ''w2''\<rparr>))
     (b_address (body1\<lparr>b_workspace_id := Some ''w2''\<rparr>)) = None"
proof -
  have "signed_message env0 (body1\<lparr>b_workspace_id := Some ''w2''\<rparr>)
        = signed_message env0 body1"
    by (simp add: signed_message_def payloadWithoutSignature_def)
  moreover have "b_workspace_id (body1\<lparr>b_workspace_id := Some ''w2''\<rparr>)
        \<noteq> b_workspace_id body1"
    by (simp add: body1_def)
  ultimately show ?thesis using verify_body1 by simp
qed

text \<open>
  C6, amended: the message whose signature \<open>signIn\<close> verifies is \<open>JSON.stringify\<close> of
  the body without its fields \<open>signature\<close> and \<open>workspace_id\<close>. The fields
  \<open>address\<close>, \<open>user_id\<close>, \<open>encoder\<close>, \<open>provider\<close> and \<open>createdAt\<close> are in the
  serialised object; changing \<open>signature\<close> or \<open>workspace_id\<close> leaves the message as it
  is. A request whose signature does not verify over this message ends with the
  verifier's error and an untouched store, and the session of a successful request
  records this message as its payload.
\<close>

theorem signed_message_is_body_without_signature_and_workspace:
  "signed_message e b =
     JSON_stringify e
       \<lparr>s_address = b_address b, s_user_id = b_user_id b, s_encoder = b_encoder b,
        s_provider = b_provider b, s_createdAt = b_createdAt b\<rparr> \<and>
   signed_message e (b\<lparr>b_signature := sg, b_workspace_id := wsid\<rparr>) = signed_message e b \<and>
   (\<forall>err. verifySignature e (b_signature b) (signed_message e b) (b_address b) = Some err
      \<longrightarrow> signIn e st b = (Inl err, st)) \<and>
   (\<forall>t st'. signIn e st b = (Inr t, st') \<longrightarrow>
      verifySignature e (b_signature b) (signed_message e b) (b_address b) = None \<and>
      payload t = signed_message e b)"
proof (intro conjI allI impI)
  show "signed_message e b =
     JSON_stringify e
       \<lparr>s_address = b_address b, s_user_id = b_user_id b, s_encoder = b_encoder b,
        s_provider = b_provider b, s_createdAt = b_createdAt b\<rparr>"
    by (simp add: signed_message_def payloadWithoutSignature_def)
  show "signed_message e (b\<lparr>b_signature := sg, b_workspace_id := wsid\<rparr>) = signed_message e b"
    by (simp add: signed_message_def payloadWithoutSignature_def)
next
  fix err
  assume "verifySignature e (b_signature b) (signed_message e b) (b_address b) = Some err"
  then show "signIn e st b = (Inl err, st)"
    by (simp add: signIn_def)
next
  fix t st'
  assume ok: "signIn e st b = (Inr t, st')"
  from signIn_InrD(1) [OF ok]
  show "verifySignature e (b_signature b) (signed_message e b) (b_address b) = None" .
  from signIn_InrD(5) [OF ok]
  show "payload t = signed_message e b" .
qed

theorem signed_message_is_body_without_signature_and_workspace_witness:
  "signIn env0 db0 body1 = (Inr session1, db1) \<and>
   verifySignature env0 (b_signature body1) (signed_message env0 body1) (b_address body1)
     = None \<and>
   payload session1 = signed_message env0 body1 \<and>
   signed_message env0 body1 = ''0xu2,u2,fuel,net,1000'' \<and>
   verifySignature env0 (b_signature body2) (signed_message env0 body1) (b_address body1)
     = Some (Thrown ''Invalid signature'') \<and>
   signIn env0 db0 (body1\<lparr>b_signature := b_signature body2\<rparr>)
     = (Inl (Thrown ''Invalid signature''), db0)"
proof -
  let ?forged = "body1\<lparr>b_signature := b_signature body2\<rparr>"
  have m: "signed_message env0 ?forged = signed_message env0 body1"
    by (simp add: signed_message_def payloadWithoutSignature_def)
  have bad: "verifySignature env0 (b_signature body2) (signed_message env0 body1)
               (b_address body1) = Some (Thrown ''Invalid signature'')"
    unfolding message_body1 by (simp add: env0_def toy_verify_def body1_def body2_def)
  from signed_message_is_body_without_signature_and_workspace [of env0 body1 _ _ db0]
    signIn_body1
  have good: "verifySignature env0 (b_signature body1) (signed_message env0 body1)
                (b_address body1) = None \<and>
              payload session1 = signed_message env0 body1"
    by blast
  from signed_message_is_body_without_signature_and_workspace [of env0 ?forged _ _ db0]
  have "\<forall>err. verifySignature env0 (b_signature ?forged) (signed_message env0 ?forged)
                 (b_address ?forged) = Some err \<longrightarrow>
               signIn env0 db0 ?forged = (Inl err, db0)"
    by blast
  with bad m have "signIn env0 db0 ?forged = (Inl (Thrown ''Invalid signature''), db0)"
    by simp
  with good bad signIn_body1 message_body1 show ?thesis by simp
qed







end
